theory Spec2Isabelle
  imports Complex_Main "HOL-Library.Sublist"
begin

section \<open>Python values shared by the three scripts\<close>

subsection \<open>Exceptions\<close>

text \<open>
  A raised Python exception, with the message it carries. The scripts only ever write
  \<^verbatim>\<open>except Exception\<close>, so what matters about a class is whether it derives from
  \<^verbatim>\<open>Exception\<close>:
  \<^item> \<open>RuntimeError m\<close> is the class the tools raise themselves;
  \<^item> \<open>OtherException c m\<close> is any other class \<open>c\<close> below \<^verbatim>\<open>Exception\<close>
    (ValueError, TypeError, requests' Timeout and HTTPError, EOFError, ...);
  \<^item> \<open>BaseOnly c m\<close> is a class below \<^verbatim>\<open>BaseException\<close> that is not below
    \<^verbatim>\<open>Exception\<close> (KeyboardInterrupt, SystemExit, GeneratorExit), which
    \<^verbatim>\<open>except Exception\<close> does not catch.
  A function that may raise returns \<open>exn + 'a\<close>, with \<open>Inl\<close> the raised exception.

  Interpolating a caught exception into an f-string, \<^verbatim>\<open>f"... {e}"\<close>, calls
  \<^verbatim>\<open>str(e)\<close>, which runs the \<^verbatim>\<open>__str__\<close> of the exception and the
  \<^verbatim>\<open>__repr__\<close> of its arguments and can itself raise. Where the source does this
  in code of its own, \<^verbatim>\<open>str\<close> is a parameter \<open>py_str\<close> of type
  \<open>exn \<Rightarrow> exn + string\<close>: \<open>Inr m\<close> when the text \<open>m\<close> is formed, \<open>Inl x\<close> when forming
  it raises \<open>x\<close>.
\<close>

datatype exn =
    RuntimeError string
  | OtherException string string
  | BaseOnly string string

fun is_Exception :: "exn \<Rightarrow> bool" where
  "is_Exception (RuntimeError m) = True"
| "is_Exception (OtherException c m) = True"
| "is_Exception (BaseOnly c m) = False"

fun exn_str :: "exn \<Rightarrow> string" where
  "exn_str (RuntimeError m) = m"
| "exn_str (OtherException c m) = m"
| "exn_str (BaseOnly c m) = m"



subsection \<open>Strings\<close>

text \<open>
  A Python \<^verbatim>\<open>str\<close> is modelled as a \<open>string\<close> whose characters stand for the code
  points 0 to 255. On these, \<^verbatim>\<open>str.lower\<close> moves A-Z and the Latin-1 capitals
  (0xC0 to 0xDE without the multiplication sign 0xD7) up by 32 and keeps every other
  code point; \<^verbatim>\<open>str.strip\<close> removes the code points for which
  \<^verbatim>\<open>str.isspace\<close> holds from both ends.
\<close>

definition lower_char :: "char \<Rightarrow> char" where
  "lower_char c =
     (let n = of_char c :: nat in
      if (65 \<le> n \<and> n \<le> 90) \<or> (192 \<le> n \<and> n \<le> 222 \<and> n \<noteq> 215)
      then char_of (n + 32) else c)"

definition lower :: "string \<Rightarrow> string" where
  "lower s = map lower_char s"

definition isspace :: "char \<Rightarrow> bool" where
  "isspace c =
     (let n = of_char c :: nat in
      (9 \<le> n \<and> n \<le> 13) \<or> (28 \<le> n \<and> n \<le> 32) \<or> n = 133 \<or> n = 160)"

definition strip :: "string \<Rightarrow> string" where
  "strip s = rev (dropWhile isspace (rev (dropWhile isspace s)))"

text \<open>
  Two strings are letter-casings of one another when they have the same length and at
  every position the characters are equal or one is the lower-case form of the other.
\<close>

definition case_variant :: "char \<Rightarrow> char \<Rightarrow> bool" where
  "case_variant a b \<longleftrightarrow> a = b \<or> lower_char a = b \<or> a = lower_char b"

definition same_up_to_case :: "string \<Rightarrow> string \<Rightarrow> bool" where
  "same_up_to_case x y = list_all2 case_variant x y"

section \<open>curr\_conv\_agent\_no\_func.py: the fetch\_live\_rate tool\<close>

text \<open>
  The values \<^verbatim>\<open>resp.json()\<close> can return: JSON decoded by Python, with \<open>'f\<close> the type
  of floats. A dictionary is an association list read with \<open>map_of\<close>.
\<close>

datatype 'f pyval =
    PNone
  | PBool bool
  | PInt int
  | PFloat 'f
  | PStr string
  | PList "'f pyval list"
  | PDict "(string \<times> 'f pyval) list"

text \<open>
  \<^verbatim>\<open>requests.get\<close> is the library's: the parameter \<open>requests_get url timeout\<close>
  gives the outcome of the call, an exception (requests raises a subclass of its
  \<^verbatim>\<open>Timeout\<close>, itself below \<^verbatim>\<open>Exception\<close>, when the timeout expires) or a
  response. A response is the outcome of its two methods the source calls:
  \<open>raise_for_status\<close> is \<open>None\<close> when the call returns and \<open>Some e\<close> when it raises.
  A request is recorded as the pair of the URL and the timeout in seconds.
\<close>

record 'f response =
  raise_for_status :: "exn option"
  json :: "exn + 'f pyval"

type_synonym 'f http_get = "string \<Rightarrow> nat \<Rightarrow> exn + 'f response"

type_synonym request = "string \<times> nat"

text \<open>
  The three operations the source applies to the decoded value: \<^verbatim>\<open>data.get(base, {})\<close>
  exists on dictionaries only; \<^verbatim>\<open>target in rates\<close> is key membership on a
  dictionary, element membership on a list, substring on a string and a TypeError
  otherwise; \<^verbatim>\<open>rates[target]\<close> with a string index succeeds on dictionaries only.
  The messages of these exceptions are shortened: the source discards them.
\<close>

fun dict_get :: "'f pyval \<Rightarrow> string \<Rightarrow> 'f pyval \<Rightarrow> exn + 'f pyval" where
  "dict_get (PDict kvs) k d = Inr (case map_of kvs k of Some v \<Rightarrow> v | None \<Rightarrow> d)"
| "dict_get v k d = Inl (OtherException ''AttributeError'' ''object has no attribute get'')"

fun py_in :: "string \<Rightarrow> 'f pyval \<Rightarrow> exn + bool" where
  "py_in k (PDict kvs) = Inr (map_of kvs k \<noteq> None)"
| "py_in k (PList xs) = Inr (PStr k \<in> set xs)"
| "py_in k (PStr s) = Inr (sublist k s)"
| "py_in k v = Inl (OtherException ''TypeError'' ''argument is not iterable'')"

fun py_getitem :: "'f pyval \<Rightarrow> string \<Rightarrow> exn + 'f pyval" where
  "py_getitem (PDict kvs) k =
     (case map_of kvs k of
        Some v \<Rightarrow> Inr v
      | None \<Rightarrow> Inl (OtherException ''KeyError'' k))"
| "py_getitem v k = Inl (OtherException ''TypeError'' ''indices must be integers'')"

text \<open>
  \<^verbatim>\<open>
  base = from_currency.lower()
  target = to_currency.lower()
  urls = [f"https://cdn.jsdelivr.net/.../currencies/{base}.json",
          f"https://latest.currency-api.pages.dev/v1/currencies/{base}.json"]
  for url in urls:
      try:
          resp = requests.get(url, timeout=5)
          resp.raise_for_status()
          data = resp.json()
          rates = data.get(base, {})
          if target in rates:
              return float(rates[target])
      except Exception:
          continue
  raise RuntimeError(f"Failed to fetch exchange rate from {from_currency} to {to_currency}")
  \<close>
  \<open>endpoint_attempt\<close> is the body of the \<^verbatim>\<open>try\<close>: \<open>Inr (Some r)\<close> is the
  \<^verbatim>\<open>return\<close>, \<open>Inr None\<close> falling out of the \<^verbatim>\<open>if\<close>, \<open>Inl e\<close> a raised
  exception. \<open>for_urls\<close> is the loop with its handler, and also records each request
  issued. \<^verbatim>\<open>float\<close> is the interpreter's, a parameter as in \<open>calculate\<close>.
\<close>

definition request_timeout :: nat where
  "request_timeout = 5"

definition endpoint_urls :: "string \<Rightarrow> string list" where
  "endpoint_urls base =
     [''https://cdn.jsdelivr.net/npm/@fawazahmed0/currency-api@latest/v1/currencies/'' @ base @ ''.json'',
      ''https://latest.currency-api.pages.dev/v1/currencies/'' @ base @ ''.json'']"

definition endpoint_attempt ::
  "'f http_get \<Rightarrow> ('f pyval \<Rightarrow> exn + 'f) \<Rightarrow> string \<Rightarrow> string \<Rightarrow> string \<Rightarrow> exn + 'f option" where
  "endpoint_attempt requests_get py_float base target url =
     (case requests_get url request_timeout of
        Inl e \<Rightarrow> Inl e
      | Inr resp \<Rightarrow>
     (case raise_for_status resp of
        Some e \<Rightarrow> Inl e
      | None \<Rightarrow>
     (case json resp of
        Inl e \<Rightarrow> Inl e
      | Inr data \<Rightarrow>
     (case dict_get data base (PDict []) of
        Inl e \<Rightarrow> Inl e
      | Inr rates \<Rightarrow>
     (case py_in target rates of
        Inl e \<Rightarrow> Inl e
      | Inr False \<Rightarrow> Inr None
      | Inr True \<Rightarrow>
     (case py_getitem rates target of
        Inl e \<Rightarrow> Inl e
      | Inr v \<Rightarrow>
     (case py_float v of
        Inl e \<Rightarrow> Inl e
      | Inr r \<Rightarrow> Inr (Some r))))))))"

fun for_urls ::
  "'f http_get \<Rightarrow> ('f pyval \<Rightarrow> exn + 'f) \<Rightarrow> string \<Rightarrow> string \<Rightarrow> string list
     \<Rightarrow> request list \<times> (exn + 'f option)" where
  "for_urls requests_get py_float base target [] = ([], Inr None)"
| "for_urls requests_get py_float base target (url # urls) =
     (case endpoint_attempt requests_get py_float base target url of
        Inr (Some r) \<Rightarrow> ([(url, request_timeout)], Inr (Some r))
      | Inr None \<Rightarrow>
          (case for_urls requests_get py_float base target urls of
             (reqs, out) \<Rightarrow> ((url, request_timeout) # reqs, out))
      | Inl e \<Rightarrow>
          if is_Exception e
          then (case for_urls requests_get py_float base target urls of
                  (reqs, out) \<Rightarrow> ((url, request_timeout) # reqs, out))
          else ([(url, request_timeout)], Inl e))"

text \<open>
  An endpoint fails when its attempt ends without a rate and the loop goes on: the target
  was not found, or an exception below \<^verbatim>\<open>Exception\<close> was swallowed.
\<close>

definition attempt_fails ::
  "'f http_get \<Rightarrow> ('f pyval \<Rightarrow> exn + 'f) \<Rightarrow> string \<Rightarrow> string \<Rightarrow> string \<Rightarrow> bool" where
  "attempt_fails requests_get py_float base target url =
     (case endpoint_attempt requests_get py_float base target url of
        Inr (Some r) \<Rightarrow> False
      | Inr None \<Rightarrow> True
      | Inl e \<Rightarrow> is_Exception e)"

definition failure_message :: "string \<Rightarrow> string \<Rightarrow> string" where
  "failure_message from_currency to_currency =
     ''Failed to fetch exchange rate from '' @ from_currency @ '' to '' @ to_currency"

definition fetch_live_rate_run ::
  "'f http_get \<Rightarrow> ('f pyval \<Rightarrow> exn + 'f) \<Rightarrow> string \<Rightarrow> string \<Rightarrow> request list \<times> (exn + 'f)" where
  "fetch_live_rate_run requests_get py_float from_currency to_currency =
     (let base = lower from_currency;
          target = lower to_currency;
          urls = endpoint_urls base
      in case for_urls requests_get py_float base target urls of
           (reqs, Inr (Some r)) \<Rightarrow> (reqs, Inr r)
         | (reqs, Inl e) \<Rightarrow> (reqs, Inl e)
         | (reqs, Inr None) \<Rightarrow>
             (reqs, Inl (RuntimeError (failure_message from_currency to_currency))))"

definition fetch_live_rate ::
  "'f http_get \<Rightarrow> ('f pyval \<Rightarrow> exn + 'f) \<Rightarrow> string \<Rightarrow> string \<Rightarrow> exn + 'f" where
  "fetch_live_rate requests_get py_float from_currency to_currency =
     snd (fetch_live_rate_run requests_get py_float from_currency to_currency)"

definition requests_issued ::
  "'f http_get \<Rightarrow> ('f pyval \<Rightarrow> exn + 'f) \<Rightarrow> string \<Rightarrow> string \<Rightarrow> request list" where
  "requests_issued requests_get py_float from_currency to_currency =
     fst (fetch_live_rate_run requests_get py_float from_currency to_currency)"

text \<open>The exception classes requests raises when a timeout expires.\<close>

fun is_Timeout :: "exn \<Rightarrow> bool" where
  "is_Timeout (OtherException c m) = (c \<in> {''Timeout'', ''ConnectTimeout'', ''ReadTimeout''})"
| "is_Timeout e = False"

text \<open>
  A stub network for running the tool: the first endpoint times out for USD and is
  interrupted from the keyboard for EUR, the second answers both; any other URL is a 404.
  Floats are reals here, and no string converts.
\<close>

fun sample_py_float :: "real pyval \<Rightarrow> exn + real" where
  "sample_py_float (PFloat x) = Inr x"
| "sample_py_float (PInt n) = Inr (of_int n)"
| "sample_py_float (PBool b) = Inr (if b then 1 else 0)"
| "sample_py_float (PStr s) = Inl (OtherException ''ValueError'' ''could not convert string to float'')"
| "sample_py_float v = Inl (OtherException ''TypeError'' ''float() argument must be a string or a real number'')"

definition sample_get :: "real http_get" where
  "sample_get url timeout =
     (if url = ''https://cdn.jsdelivr.net/npm/@fawazahmed0/currency-api@latest/v1/currencies/usd.json''
      then Inl (OtherException ''ReadTimeout'' ''Read timed out. (read timeout=5)'')
      else if url = ''https://latest.currency-api.pages.dev/v1/currencies/usd.json''
      then Inr \<lparr>raise_for_status = None,
                json = Inr (PDict [(''date'', PStr ''2025-01-01''),
                                   (''usd'', PDict [(''eur'', PFloat 0.92), (''jpy'', PInt 150)])])\<rparr>
      else if url = ''https://cdn.jsdelivr.net/npm/@fawazahmed0/currency-api@latest/v1/currencies/eur.json''
      then Inl (BaseOnly ''KeyboardInterrupt'' [])
      else if url = ''https://latest.currency-api.pages.dev/v1/currencies/eur.json''
      then Inr \<lparr>raise_for_status = None,
                json = Inr (PDict [(''date'', PStr ''2025-01-01''),
                                   (''eur'', PDict [(''usd'', PFloat 1.08)])])\<rparr>
      else Inr \<lparr>raise_for_status = Some (OtherException ''HTTPError'' ''404 Client Error''),
                json = Inl (OtherException ''JSONDecodeError'' ''Expecting value'')\<rparr>)"

section \<open>curr\_conv\_agent\_no\_func.py: the calculate tool\<close>










section \<open>smolaagents.py: the weather tools\<close>

text \<open>
  \<^verbatim>\<open>random.randint(a, b)\<close> is the standard library's: a parameter that takes the
  generator state and returns the drawn integer with the new state. Its documented
  contract is \<open>a \<le> N \<le> b\<close>.
\<close>

type_synonym 's randint = "int \<Rightarrow> int \<Rightarrow> 's \<Rightarrow> int \<times> 's"

definition randint_contract :: "'s randint \<Rightarrow> bool" where
  "randint_contract randint \<longleftrightarrow>
     (\<forall>a b s. a \<le> b \<longrightarrow> a \<le> fst (randint a b s) \<and> fst (randint a b s) \<le> b)"

definition get_temperature :: "'s randint \<Rightarrow> string \<Rightarrow> 's \<Rightarrow> int \<times> 's" where
  "get_temperature randint city s = randint (- 10) 40 s"

definition get_humidity :: "'s randint \<Rightarrow> string \<Rightarrow> 's \<Rightarrow> int \<times> 's" where
  "get_humidity randint city s = randint 30 90 s"

text \<open>A generator for running the tools: the state is a counter, the draw wraps it into range.\<close>

definition sample_randint :: "nat randint" where
  "sample_randint a b s = (a + int s mod (b - a + 1), Suc s)"

section \<open>The agents the scripts construct\<close>

text \<open>
  The constructors are the libraries' (smolagents, LiteLLM, LangChain); what the scripts
  decide is the arguments they pass. A constructed object is modelled as the record of
  those arguments: the class called, and the keyword arguments as an association list in
  the order written, so that an argument that is not passed is absent from the list.
  \<open>AName\<close> is a named constant of a library (an enum member).
\<close>

datatype pyarg = ANone | ABool bool | AInt int | AFloat real | AStr string | AName string

record tool =
  name :: string
  description :: string

record llm_config =
  llm_class :: string
  llm_kwargs :: "(string \<times> pyarg) list"

record agent_object =
  agent_class :: string
  tools :: "tool list"
  model :: llm_config
  agent_kwargs :: "(string \<times> pyarg) list"

text \<open>
  smolagents' \<^verbatim>\<open>@tool\<close> turns a function into a tool named after the function, with
  the first lines of its docstring as description.
\<close>

definition tool_decorator :: "string \<Rightarrow> string \<Rightarrow> tool" where
  "tool_decorator function_name docstring = \<lparr>name = function_name, description = docstring\<rparr>"

subsection \<open>curr\_conv\_agent\_no\_func.py\<close>

definition fetch_live_rate_tool :: tool where
  "fetch_live_rate_tool =
     tool_decorator ''fetch_live_rate'' ''Retrieve a live exchange rate from a public exchange rate API.''"

definition calculate_tool :: tool where
  "calculate_tool = tool_decorator ''calculate'' ''Evaluate a basic arithmetic expression safely.''"

definition create_agent :: "string \<Rightarrow> string option \<Rightarrow> agent_object" where
  "create_agent model_id api_base =
     \<lparr>agent_class = ''CodeAgent'',
      tools = [fetch_live_rate_tool, calculate_tool],
      model = \<lparr>llm_class = ''LiteLLMModel'',
               llm_kwargs = [(''model_id'', AStr model_id),
                             (''api_base'', case api_base of None \<Rightarrow> ANone | Some b \<Rightarrow> AStr b),
                             (''temperature'', AFloat 0.0)]\<rparr>,
      agent_kwargs = [(''max_steps'', AInt 10), (''add_base_tools'', ABool False)]\<rparr>"


subsection \<open>smolaagents.py\<close>






subsection \<open>agent1-search.py\<close>

definition llm :: llm_config where
  "llm = \<lparr>llm_class = ''OllamaLLM'',
          llm_kwargs = [(''model'', AStr ''llama3.2''), (''temperature'', AInt 0)]\<rparr>"

definition search_tool :: tool where
  "search_tool = \<lparr>name = ''web_search'',
                  description = ''Search the web for up-to-date information.''\<rparr>"

definition agent :: agent_object where
  "agent =
     \<lparr>agent_class = ''initialize_agent'',
      tools = [search_tool],
      model = llm,
      agent_kwargs = [(''agent'', AName ''AgentType.ZERO_SHOT_REACT_DESCRIPTION''),
                      (''verbose'', ABool True)]\<rparr>"

subsection \<open>What a backend configuration includes\<close>






section \<open>The main programs of the scripts\<close>

text \<open>
  What a main program does is the list of its observable events, in order, and how it
  ends: \<open>None\<close> when it runs to its end, \<open>Some e\<close> when the exception \<open>e\<close> is not
  caught. The banner and separator lines are one event; a printed answer or error
  carries the text interpolated into the line; a line is an event only once it has been
  printed. \<^verbatim>\<open>agent.run\<close> is the library's: a parameter that receives the agent,
  the state of the world and the query, and gives the answer or the exception raised,
  with the new state.
\<close>

datatype event =
    PrintBanner
  | PrintGoodbye
  | PrintDefault string
  | RunCalled agent_object string
  | PrintAnswer string
  | PrintError string

type_synonym 's agent_run = "agent_object \<Rightarrow> 's \<Rightarrow> string \<Rightarrow> (exn + string) \<times> 's"

definition EOFError :: exn where
  "EOFError = OtherException ''EOFError'' ''EOF when reading a line''"

fun is_RunCalled :: "event \<Rightarrow> bool" where
  "is_RunCalled (RunCalled a q) = True"
| "is_RunCalled e = False"

subsection \<open>agent1-search.py\<close>

text \<open>
  \<^verbatim>\<open>
  print("search agent (type 'exit' to quit)\n")
  while True:
      question = input("whatever (or 'exit'): ").strip()
      if question.lower() == "exit":
          print("Goodbye!")
          break
      try:
          answer = agent.run(question)
          print(f"... {answer}")
      except Exception as e:
          print(f"... Error: {e}")
  \<close>
  Standard input is the list of the outcomes of the calls of \<^verbatim>\<open>input()\<close> still to
  come: \<open>Inr line\<close> when a line is read, \<open>Inl e\<close> when the call raises (KeyboardInterrupt
  at the prompt, UnicodeDecodeError on bytes that do not decode); on the empty list the
  input has ended and \<^verbatim>\<open>input()\<close> raises EOFError. \<^verbatim>\<open>print\<close> is a parameter
  \<open>py_print\<close>: whether building and printing the line of an event in a state of the
  world raises (the answer and error lines carry a non-ASCII sign, so printing them
  raises UnicodeEncodeError when the output cannot encode it), and \<^verbatim>\<open>str\<close> of the
  caught exception is the parameter \<open>py_str\<close>.

  \<open>search_handler\<close> is the \<^verbatim>\<open>except\<close> clause applied to an exception raised in
  the \<^verbatim>\<open>try\<close> block, \<open>search_turn\<close> the \<^verbatim>\<open>try\<close> statement, \<open>search_loop\<close> the
  \<^verbatim>\<open>while\<close> loop. An exception that the clause does not catch, or that is raised
  inside it, ends the program.
\<close>

type_synonym 's printer = "'s \<Rightarrow> event \<Rightarrow> exn option"

definition is_exit :: "string \<Rightarrow> bool" where
  "is_exit line = (lower (strip line) = ''exit'')"

definition search_handler ::
  "(exn \<Rightarrow> exn + string) \<Rightarrow> 's printer \<Rightarrow> 's \<Rightarrow> exn \<Rightarrow> event list \<times> exn option" where
  "search_handler py_str py_print s e =
     (if \<not> is_Exception e then ([], Some e)
      else
        (case py_str e of
           Inl x \<Rightarrow> ([], Some x)
         | Inr m \<Rightarrow>
             (case py_print s (PrintError m) of
                Some x \<Rightarrow> ([], Some x)
              | None \<Rightarrow> ([PrintError m], None))))"

definition search_turn ::
  "'s agent_run \<Rightarrow> (exn \<Rightarrow> exn + string) \<Rightarrow> 's printer \<Rightarrow> 's \<Rightarrow> string
     \<Rightarrow> (event list \<times> exn option) \<times> 's" where
  "search_turn run py_str py_print s question =
     (case run agent s question of
        (Inr answer, s') \<Rightarrow>
          (case py_print s' (PrintAnswer answer) of
             None \<Rightarrow> (([RunCalled agent question, PrintAnswer answer], None), s')
           | Some e \<Rightarrow>
               (case search_handler py_str py_print s' e of
                  (evs, r) \<Rightarrow> ((RunCalled agent question # evs, r), s')))
      | (Inl e, s') \<Rightarrow>
          (case search_handler py_str py_print s' e of
             (evs, r) \<Rightarrow> ((RunCalled agent question # evs, r), s')))"

fun search_loop ::
  "'s agent_run \<Rightarrow> (exn \<Rightarrow> exn + string) \<Rightarrow> 's printer \<Rightarrow> 's \<Rightarrow> (exn + string) list
     \<Rightarrow> event list \<times> exn option" where
  "search_loop run py_str py_print s [] = ([], Some EOFError)"
| "search_loop run py_str py_print s (Inl e # rest) = ([], Some e)"
| "search_loop run py_str py_print s (Inr line # rest) =
     (let question = strip line in
      if lower question = ''exit''
      then (case py_print s PrintGoodbye of
              Some e \<Rightarrow> ([], Some e)
            | None \<Rightarrow> ([PrintGoodbye], None))
      else
        (case search_turn run py_str py_print s question of
           ((evs, Some e), s') \<Rightarrow> (evs, Some e)
         | ((evs, None), s') \<Rightarrow>
             (case search_loop run py_str py_print s' rest of
                (evs', r) \<Rightarrow> (evs @ evs', r))))"

definition search_main ::
  "'s agent_run \<Rightarrow> (exn \<Rightarrow> exn + string) \<Rightarrow> 's printer \<Rightarrow> 's \<Rightarrow> (exn + string) list
     \<Rightarrow> event list \<times> exn option" where
  "search_main run py_str py_print s stdin =
     (case py_print s PrintBanner of
        Some e \<Rightarrow> ([], Some e)
      | None \<Rightarrow>
          (case search_loop run py_str py_print s stdin of
             (evs, r) \<Rightarrow> (PrintBanner # evs, r)))"

text \<open>
  The surroundings are benign when nothing but the end of the input can end the loop
  abnormally: \<^verbatim>\<open>agent.run\<close> raises only exceptions below \<^verbatim>\<open>Exception\<close>, the
  text of every such exception can be formed, and printing never raises.
\<close>

definition benign :: "'s agent_run \<Rightarrow> (exn \<Rightarrow> exn + string) \<Rightarrow> 's printer \<Rightarrow> bool" where
  "benign run st pr \<longleftrightarrow>
     (\<forall>a s q e s'. run a s q = (Inl e, s') \<longrightarrow> is_Exception e)
     \<and> (\<forall>e. is_Exception e \<longrightarrow> (\<exists>m. st e = Inr m))
     \<and> (\<forall>s ev. pr s ev = None)"

subsection \<open>smolaagents.py\<close>




subsection \<open>Stub agents for running the programs\<close>

text \<open>
  \<open>quiet_run\<close> answers every query but "crash", on which the library fails to parse the
  model's output; \<open>sample_run\<close> is in addition interrupted from the keyboard on
  "interrupt". The state counts the calls.
\<close>

definition quiet_run :: "nat agent_run" where
  "quiet_run a s question =
     (if question = ''crash''
      then (Inl (OtherException ''ValueError'' ''Could not parse LLM output''), Suc s)
      else (Inr (''answer to '' @ question), Suc s))"

definition sample_run :: "nat agent_run" where
  "sample_run a s question =
     (if question = ''interrupt'' then (Inl (BaseOnly ''KeyboardInterrupt'' []), Suc s)
      else quiet_run a s question)"

text \<open>\<^verbatim>\<open>str\<close> where it returns the message of every exception.\<close>

definition plain_str :: "exn \<Rightarrow> exn + string" where
  "plain_str e = Inr (exn_str e)"

definition KeyboardInterrupt :: exn where
  "KeyboardInterrupt = BaseOnly ''KeyboardInterrupt'' []"

text \<open>
  Two outputs: one that prints everything, and one that can only encode ASCII, on which
  the answer and error lines raise UnicodeEncodeError.
\<close>

definition UnicodeEncodeError :: exn where
  "UnicodeEncodeError =
     OtherException ''UnicodeEncodeError'' ''ascii codec cannot encode character''"

definition utf8_print :: "nat printer" where
  "utf8_print s ev = None"

fun ascii_print :: "nat printer" where
  "ascii_print s (PrintAnswer answer) = Some UnicodeEncodeError"
| "ascii_print s (PrintError m) = Some UnicodeEncodeError"
| "ascii_print s ev = None"

section \<open>The reasoning loop\<close>

text \<open>
  The loop that turns a query into model turns and tool calls is
  \<^verbatim>\<open>CodeAgent.run\<close> of the smolagents library, which the scripts call and do not
  contain. It is modelled here from sections 3, 4.1 and 4.2 of the specification; the
  step budget it runs with is the \<^verbatim>\<open>max_steps\<close> that \<open>create_agent\<close> passes.
\<close>

type_synonym arguments = "(string \<times> pyarg) list"

text \<open>
  Modelled from the spec: the primitive types of a parameter schema (section 3, ToolSpec);
  the library's schema types are missing.
\<close>

datatype primitive = PString | PInteger | PNumber | PBoolean

text \<open>
  Modelled from the spec: ToolSpec (section 3), the library's tool class being missing: name and
  description, the ordered parameter schema of (name, primitive type, required), and
  \<open>invoke\<close>, which gives a result value or a failure with its cause.
\<close>

record 'v ToolSpec = tool +
  parameter_schema :: "(string \<times> primitive \<times> bool) list"
  invoke :: "arguments \<Rightarrow> string + 'v"

text \<open>
  Modelled from the spec: the errors \<open>dispatch\<close> returns (section 4.1), the library's
  exception classes being missing; ToolExecutionError carries the tool name and the cause.
\<close>

datatype tool_error =
    UnknownToolError
  | InvalidArgumentsError
  | ToolExecutionError string string

text \<open>
  Modelled from the spec: TranscriptEntry (section 3), the library's memory steps being
  missing; \<open>requestedAction\<close> is absent for a final answer.
\<close>

datatype 'v TranscriptEntry =
    UserMessage string
  | ModelUtterance string "(string \<times> arguments) option"
  | ToolCall string arguments
  | ToolResult string "tool_error + 'v"

text \<open>
  Modelled from the spec: the result of parsing the backend's raw output (sections 4.2 b and 9),
  the library's parser being missing.
\<close>

datatype parsed = ToolCallRequest string arguments | FinalAnswer string | Malformed

text \<open>
  Modelled from the spec: the errors \<open>run\<close> fails with (sections 4.2 and 7), the library's
  being missing; StepBudgetExceededError carries the last transcript.
\<close>

datatype 'v LoopError =
    MalformedModelOutputError
  | BackendUnavailableError
  | StepBudgetExceededError "'v TranscriptEntry list"

text \<open>
  Modelled from the spec: whether an argument has the primitive type a schema names
  (section 4.1, "wrong primitive type"); the library's validation is missing.
\<close>

fun has_primitive :: "pyarg \<Rightarrow> primitive \<Rightarrow> bool" where
  "has_primitive (AStr s) PString = True"
| "has_primitive (AInt n) PInteger = True"
| "has_primitive (AInt n) PNumber = True"
| "has_primitive (AFloat x) PNumber = True"
| "has_primitive (ABool b) PBoolean = True"
| "has_primitive v p = False"

text \<open>
  Modelled from the spec: one schema field is satisfied: a required field is present, and a
  present field has the right primitive type (section 4.1); the library's validation is missing.
\<close>

fun field_ok :: "arguments \<Rightarrow> string \<times> primitive \<times> bool \<Rightarrow> bool" where
  "field_ok args (field, p, required) =
     (case map_of args field of
        None \<Rightarrow> \<not> required
      | Some v \<Rightarrow> has_primitive v p)"

text \<open>
  Modelled from the spec: the arguments satisfy the schema: every field is satisfied
  and no unexpected extra field is given (section 4.1); the library's validation is missing.
\<close>

definition satisfies_schema :: "(string \<times> primitive \<times> bool) list \<Rightarrow> arguments \<Rightarrow> bool" where
  "satisfies_schema schema args =
     (list_all (field_ok args) schema \<and> list_all (\<lambda>a. fst a \<in> set (map fst schema)) args)"

text \<open>
  Modelled from the spec: \<open>describe()\<close> returns all specs in registration order
  (section 4.1); the library's registry is missing.
\<close>

definition describe :: "'v ToolSpec list \<Rightarrow> 'v ToolSpec list" where
  "describe registry = registry"

text \<open>
  Modelled from the spec: \<open>dispatch(name, arguments)\<close> (section 4.1), the library's tool
  execution being missing: UnknownToolError for an unregistered name,
  InvalidArgumentsError when the schema is not satisfied, otherwise \<open>invoke\<close>, whose
  failure is wrapped as ToolExecutionError.
\<close>

definition dispatch :: "'v ToolSpec list \<Rightarrow> string \<Rightarrow> arguments \<Rightarrow> tool_error + 'v" where
  "dispatch registry toolName args =
     (case find (\<lambda>spec. name spec = toolName) registry of
        None \<Rightarrow> Inl UnknownToolError
      | Some spec \<Rightarrow>
          if \<not> satisfies_schema (parameter_schema spec) args then Inl InvalidArgumentsError
          else (case invoke spec args of
                  Inl cause \<Rightarrow> Inl (ToolExecutionError toolName cause)
                | Inr v \<Rightarrow> Inr v))"

text \<open>
  Modelled from the spec: the LLM backend boundary \<open>complete(promptContext)\<close>
  (section 6), the model client being missing: from the transcript and the tool listing
  to the raw text, or \<open>None\<close> for BackendUnavailableError.
\<close>

type_synonym 'v backend = "'v TranscriptEntry list \<Rightarrow> 'v ToolSpec list \<Rightarrow> string option"

text \<open>
  Modelled from the spec: the algorithm of section 4.2, step 2 and 3, the library's loop being
  missing. The first argument of type \<open>nat\<close> is the number of steps left. The result is
  the number of model turns made, the final transcript, and the final answer or the error.
  A tool failure is recorded in the transcript and the loop goes on.
\<close>

fun reasoning_loop ::
  "'v backend \<Rightarrow> (string \<Rightarrow> parsed) \<Rightarrow> 'v ToolSpec list \<Rightarrow> nat \<Rightarrow> 'v TranscriptEntry list
     \<Rightarrow> nat \<times> 'v TranscriptEntry list \<times> ('v LoopError + string)" where
  "reasoning_loop backend parse registry 0 transcript =
     (0, transcript, Inl (StepBudgetExceededError transcript))"
| "reasoning_loop backend parse registry (Suc n) transcript =
     (case backend transcript (describe registry) of
        None \<Rightarrow> (1, transcript, Inl BackendUnavailableError)
      | Some raw \<Rightarrow>
          (case parse raw of
             Malformed \<Rightarrow> (1, transcript, Inl MalformedModelOutputError)
           | FinalAnswer text \<Rightarrow> (1, transcript @ [ModelUtterance text None], Inr text)
           | ToolCallRequest toolName args \<Rightarrow>
               (case reasoning_loop backend parse registry n
                       (transcript @ [ModelUtterance raw (Some (toolName, args)),
                                      ToolCall toolName args,
                                      ToolResult toolName (dispatch registry toolName args)]) of
                  (turns, final, result) \<Rightarrow> (Suc turns, final, result))))"

text \<open>
  Modelled from the spec: \<open>run(query, maxSteps)\<close> (section 4.2, step 1), the library's
  \<^verbatim>\<open>run\<close> being missing: the transcript starts with the user message.
\<close>

definition AgentSession_run ::
  "'v backend \<Rightarrow> (string \<Rightarrow> parsed) \<Rightarrow> 'v ToolSpec list \<Rightarrow> string \<Rightarrow> nat
     \<Rightarrow> nat \<times> 'v TranscriptEntry list \<times> ('v LoopError + string)" where
  "AgentSession_run backend parse registry query maxSteps =
     reasoning_loop backend parse registry maxSteps [UserMessage query]"

text \<open>
  Modelled from the spec: the number of model turns of a run, the first component of what
  \<open>AgentSession_run\<close> returns; the library's step counter is missing.
\<close>

definition model_turns :: "nat \<times> 'v TranscriptEntry list \<times> ('v LoopError + string) \<Rightarrow> nat" where
  "model_turns outcome = fst outcome"

text \<open>
  Modelled from the spec: the FinalAnswer or LoopError of a run (section 4.2, contract), the
  last component of what \<open>AgentSession_run\<close> returns; the library's return value is missing.
\<close>

definition run_result ::
  "nat \<times> 'v TranscriptEntry list \<times> ('v LoopError + string) \<Rightarrow> 'v LoopError + string" where
  "run_result outcome = snd (snd outcome)"

text \<open>
  Modelled from the spec: the run failed with StepBudgetExceededError (section 4.2,
  step 3); the library's error class is missing.
\<close>

fun is_StepBudgetExceeded :: "'v LoopError + string \<Rightarrow> bool" where
  "is_StepBudgetExceeded (Inl (StepBudgetExceededError transcript)) = True"
| "is_StepBudgetExceeded r = False"


text \<open>The step budget an agent was constructed with, read from its keyword arguments.\<close>

definition max_steps_of :: "agent_object \<Rightarrow> nat option" where
  "max_steps_of a =
     (case map_of (agent_kwargs a) ''max_steps'' of
        Some (AInt n) \<Rightarrow> Some (nat n)
      | _ \<Rightarrow> None)"

text \<open>
  Stubs for running the loop: a backend that requests the rate tool at every turn, one
  that answers at its second turn, a parser for their two outputs, and a registry whose
  rate tool returns 0.9.
\<close>

definition always_calls :: "real backend" where
  "always_calls transcript specs = Some ''Action: fetch_live_rate''"


definition sample_parse :: "string \<Rightarrow> parsed" where
  "sample_parse raw =
     (if raw = ''Action: fetch_live_rate''
      then ToolCallRequest ''fetch_live_rate'' [(''from_currency'', AStr ''USD''), (''to_currency'', AStr ''EUR'')]
      else if raw = ''90 EUR'' then FinalAnswer ''90 EUR''
      else Malformed)"

definition sample_registry :: "real ToolSpec list" where
  "sample_registry =
     [\<lparr>name = ''fetch_live_rate'',
       description = ''Retrieve a live exchange rate from a public exchange rate API.'',
       parameter_schema = [(''from_currency'', PString, True), (''to_currency'', PString, True)],
       invoke = (\<lambda>args. Inr 0.9)\<rparr>]"

section \<open>Properties\<close>

subsection \<open>Strings\<close>

lemma lower_char_idem: "lower_char (lower_char c) = lower_char c"
  unfolding lower_char_def Let_def by (auto simp: of_char_of)

lemma case_variant_lower: "case_variant a b \<Longrightarrow> lower_char a = lower_char b"
  by (auto simp: case_variant_def lower_char_idem)

lemma same_up_to_case_lower: "same_up_to_case x y \<Longrightarrow> lower x = lower y"
  unfolding same_up_to_case_def lower_def
  by (induction x y rule: list_all2_induct) (auto dest: case_variant_lower)

subsection \<open>fetch\_live\_rate\<close>

lemma for_urls_timeouts:
  "\<forall>c\<in>set (fst (for_urls g fl b t urls)). snd c = request_timeout"
  by (induction urls) (auto split: sum.splits option.splits prod.splits)


lemma for_urls_all_fail:
  "\<forall>u\<in>set urls. attempt_fails g fl b t u \<Longrightarrow>
   for_urls g fl b t urls = (map (\<lambda>u. (u, request_timeout)) urls, Inr None)"
  by (induction urls) (auto simp: attempt_fails_def split: sum.splits option.splits)


lemma for_urls_first:
  "\<forall>u\<in>set pre. attempt_fails g fl b t u \<Longrightarrow> endpoint_attempt g fl b t u = Inr (Some r) \<Longrightarrow>
   for_urls g fl b t (pre @ u # post) = (map (\<lambda>u. (u, request_timeout)) (pre @ [u]), Inr (Some r))"
  by (induction pre) (auto simp: attempt_fails_def split: sum.splits option.splits)


lemma for_urls_escape:
  "\<forall>u\<in>set pre. attempt_fails g fl b t u \<Longrightarrow> endpoint_attempt g fl b t u = Inl e \<Longrightarrow>
   \<not> is_Exception e \<Longrightarrow>
   for_urls g fl b t (pre @ u # post) = (map (\<lambda>u. (u, request_timeout)) (pre @ [u]), Inl e)"
  by (induction pre) (auto simp: attempt_fails_def split: sum.splits option.splits)


lemma for_urls_cases:
  "(for_urls g fl b t urls = (map (\<lambda>u. (u, request_timeout)) urls, Inr None)
      \<and> (\<forall>u\<in>set urls. attempt_fails g fl b t u))
   \<or> (\<exists>pre u post r. urls = pre @ u # post \<and> (\<forall>v\<in>set pre. attempt_fails g fl b t v)
        \<and> endpoint_attempt g fl b t u = Inr (Some r)
        \<and> for_urls g fl b t urls = (map (\<lambda>u. (u, request_timeout)) (pre @ [u]), Inr (Some r)))
   \<or> (\<exists>pre u post e. urls = pre @ u # post \<and> (\<forall>v\<in>set pre. attempt_fails g fl b t v)
        \<and> endpoint_attempt g fl b t u = Inl e \<and> \<not> is_Exception e
        \<and> for_urls g fl b t urls = (map (\<lambda>u. (u, request_timeout)) (pre @ [u]), Inl e))"
    (is "?A \<or> ?B \<or> ?C")
proof (cases "\<forall>u\<in>set urls. attempt_fails g fl b t u")
  case True
  then have "for_urls g fl b t urls = (map (\<lambda>u. (u, request_timeout)) urls, Inr None)"
    by (rule for_urls_all_fail)
  with True have ?A by (rule conjI[rotated])
  then show ?thesis by (rule disjI1)
next
  case False
  then have "\<exists>x\<in>set urls. \<not> attempt_fails g fl b t x" by simp
  then obtain pre u post where d: "urls = pre @ u # post"
    and n: "\<not> attempt_fails g fl b t u"
    and p': "\<forall>v\<in>set pre. \<not> \<not> attempt_fails g fl b t v"
    using split_list_first_prop [of urls "\<lambda>x. \<not> attempt_fails g fl b t x"] by auto
  from p' have p: "\<forall>v\<in>set pre. attempt_fails g fl b t v" by simp
  show ?thesis
  proof (cases "endpoint_attempt g fl b t u")
    case (Inl e)
    with n have ne: "\<not> is_Exception e" by (simp add: attempt_fails_def)
    have "for_urls g fl b t (pre @ u # post) = (map (\<lambda>u. (u, request_timeout)) (pre @ [u]), Inl e)"
      using p Inl ne by (rule for_urls_escape)
    with d p Inl ne have ?C by (intro exI conjI) (assumption | simp)+
    then show ?thesis by (intro disjI2)
  next
    case (Inr opt)
    with n obtain r where r: "endpoint_attempt g fl b t u = Inr (Some r)"
      by (cases opt) (auto simp: attempt_fails_def)
    have "for_urls g fl b t (pre @ u # post) = (map (\<lambda>u. (u, request_timeout)) (pre @ [u]), Inr (Some r))"
      using p r by (rule for_urls_first)
    with d p r have ?B by (intro exI conjI) (assumption | simp)+
    then show ?thesis by (intro disjI2 disjI1)
  qed
qed

lemma is_Timeout_is_Exception: "is_Timeout e \<Longrightarrow> is_Exception e"
  by (cases e) simp_all

lemma for_urls_Inl: "snd (for_urls g fl b t urls) = Inl e \<Longrightarrow> \<not> is_Exception e"
  using for_urls_cases [of g fl b t urls] by auto

lemma fetch_run_cases:
  "(fetch_live_rate_run g fl f t
      = (map (\<lambda>u. (u, request_timeout)) (endpoint_urls (lower f)),
         Inl (RuntimeError (failure_message f t)))
      \<and> (\<forall>u\<in>set (endpoint_urls (lower f)). attempt_fails g fl (lower f) (lower t) u))
   \<or> (\<exists>pre u post r. endpoint_urls (lower f) = pre @ u # post
        \<and> (\<forall>v\<in>set pre. attempt_fails g fl (lower f) (lower t) v)
        \<and> endpoint_attempt g fl (lower f) (lower t) u = Inr (Some r)
        \<and> fetch_live_rate_run g fl f t = (map (\<lambda>u. (u, request_timeout)) (pre @ [u]), Inr r))
   \<or> (\<exists>pre u post e. endpoint_urls (lower f) = pre @ u # post
        \<and> (\<forall>v\<in>set pre. attempt_fails g fl (lower f) (lower t) v)
        \<and> endpoint_attempt g fl (lower f) (lower t) u = Inl e \<and> \<not> is_Exception e
        \<and> fetch_live_rate_run g fl f t = (map (\<lambda>u. (u, request_timeout)) (pre @ [u]), Inl e))"
    (is "?A \<or> ?B \<or> ?C")
proof -
  consider (a) "for_urls g fl (lower f) (lower t) (endpoint_urls (lower f))
        = (map (\<lambda>u. (u, request_timeout)) (endpoint_urls (lower f)), Inr None)"
      "\<forall>u\<in>set (endpoint_urls (lower f)). attempt_fails g fl (lower f) (lower t) u"
    | (b) pre u post r where "endpoint_urls (lower f) = pre @ u # post"
      "\<forall>v\<in>set pre. attempt_fails g fl (lower f) (lower t) v"
      "endpoint_attempt g fl (lower f) (lower t) u = Inr (Some r)"
      "for_urls g fl (lower f) (lower t) (endpoint_urls (lower f))
        = (map (\<lambda>u. (u, request_timeout)) (pre @ [u]), Inr (Some r))"
    | (c) pre u post e where "endpoint_urls (lower f) = pre @ u # post"
      "\<forall>v\<in>set pre. attempt_fails g fl (lower f) (lower t) v"
      "endpoint_attempt g fl (lower f) (lower t) u = Inl e" "\<not> is_Exception e"
      "for_urls g fl (lower f) (lower t) (endpoint_urls (lower f))
        = (map (\<lambda>u. (u, request_timeout)) (pre @ [u]), Inl e)"
    using for_urls_cases [of g fl "lower f" "lower t" "endpoint_urls (lower f)"] by blast
  then show ?thesis
  proof cases
    case a
    then have ?A by (simp add: fetch_live_rate_run_def)
    then show ?thesis by (rule disjI1)
  next
    case b
    from b(4) have "fetch_live_rate_run g fl f t
        = (map (\<lambda>u. (u, request_timeout)) (pre @ [u]), Inr r)"
      by (simp add: fetch_live_rate_run_def)
    with b(1-3) have ?B by (intro exI conjI) (assumption | simp)+
    then show ?thesis by (intro disjI2 disjI1)
  next
    case c
    from c(5) have "fetch_live_rate_run g fl f t
        = (map (\<lambda>u. (u, request_timeout)) (pre @ [u]), Inl e)"
      by (simp add: fetch_live_rate_run_def)
    with c(1-4) have ?C by (intro exI conjI) (assumption | simp)+
    then show ?thesis by (intro disjI2)
  qed
qed






lemma fetch_all_fail:
  assumes "\<forall>u\<in>set (endpoint_urls (lower f)). attempt_fails g fl (lower f) (lower t) u"
  shows "fetch_live_rate_run g fl f t
      = (map (\<lambda>u. (u, request_timeout)) (endpoint_urls (lower f)),
         Inl (RuntimeError (failure_message f t)))"
  using for_urls_all_fail [OF assms] by (simp add: fetch_live_rate_run_def)


lemma fetch_Inl_cases:
  assumes "fetch_live_rate g fl f t = Inl e"
  shows "(e = RuntimeError (failure_message f t)
          \<and> (\<forall>u\<in>set (endpoint_urls (lower f)). attempt_fails g fl (lower f) (lower t) u))
       \<or> (\<not> is_Exception e
          \<and> (\<exists>u\<in>set (endpoint_urls (lower f)). endpoint_attempt g fl (lower f) (lower t) u = Inl e))"
proof -
  from assms have s: "snd (fetch_live_rate_run g fl f t) = Inl e"
    by (simp add: fetch_live_rate_def)
  from fetch_run_cases [of g fl f t] show ?thesis
  proof (elim disjE exE conjE)
    assume "fetch_live_rate_run g fl f t
      = (map (\<lambda>u. (u, request_timeout)) (endpoint_urls (lower f)),
         Inl (RuntimeError (failure_message f t)))"
      and "\<forall>u\<in>set (endpoint_urls (lower f)). attempt_fails g fl (lower f) (lower t) u"
    with s show ?thesis by simp
  next
    fix pre u post r'
    assume "fetch_live_rate_run g fl f t = (map (\<lambda>u. (u, request_timeout)) (pre @ [u]), Inr r')"
    with s show ?thesis by simp
  next
    fix pre u post e'
    assume d: "endpoint_urls (lower f) = pre @ u # post"
      and y: "endpoint_attempt g fl (lower f) (lower t) u = Inl e'"
      and n: "\<not> is_Exception e'"
      and r: "fetch_live_rate_run g fl f t = (map (\<lambda>u. (u, request_timeout)) (pre @ [u]), Inl e')"
    from r s have "e' = e" by simp
    moreover from d have "u \<in> set (endpoint_urls (lower f))" by simp
    ultimately show ?thesis using y n by blast
  qed
qed


lemma timeout_attempt_fails:
  "g u request_timeout = Inl e \<Longrightarrow> is_Timeout e \<Longrightarrow> attempt_fails g fl b t u"
  by (simp add: attempt_fails_def endpoint_attempt_def is_Timeout_is_Exception)

lemma for_urls_fail_step:
  "attempt_fails g fl b t u \<Longrightarrow>
   for_urls g fl b t (u # us) =
     ((u, request_timeout) # fst (for_urls g fl b t us), snd (for_urls g fl b t us))"
  by (auto simp: attempt_fails_def split: sum.splits option.splits prod.splits)

lemma for_urls_single_trace: "fst (for_urls g fl b t [u]) = [(u, request_timeout)]"
  by (auto split: sum.splits option.splits)

lemma fetch_run_fst:
  "fst (fetch_live_rate_run g fl f t) = fst (for_urls g fl (lower f) (lower t) (endpoint_urls (lower f)))"
  by (auto simp: fetch_live_rate_run_def Let_def split: prod.splits sum.splits option.splits)

lemma for_urls_requests_configured:
  "\<forall>c\<in>set (fst (for_urls g fl b t urls)). fst c \<in> set urls"
  by (induction urls) (auto split: sum.splits option.splits prod.splits)

text \<open>
  C4: every request \<open>fetch_live_rate\<close> issues goes to a configured endpoint with the
  timeout of 5 seconds the function supplies; when the first request times out the
  second endpoint is requested as well; RuntimeError is raised only if every endpoint
  failed, and it is raised when every endpoint times out; no exception that leaves the
  function is a timeout.
\<close>

theorem fetch_live_rate_timeouts:
  "(\<forall>c\<in>set (requests_issued g fl f t). fst c \<in> set (endpoint_urls (lower f)) \<and> snd c = 5)
   \<and> (\<forall>e. g (endpoint_urls (lower f) ! 0) 5 = Inl e \<and> is_Timeout e \<longrightarrow>
         requests_issued g fl f t
           = [(endpoint_urls (lower f) ! 0, 5), (endpoint_urls (lower f) ! 1, 5)])
   \<and> (\<forall>m. fetch_live_rate g fl f t = Inl (RuntimeError m) \<longrightarrow>
         (\<forall>u\<in>set (endpoint_urls (lower f)). attempt_fails g fl (lower f) (lower t) u))
   \<and> ((\<forall>u\<in>set (endpoint_urls (lower f)). \<exists>e. g u 5 = Inl e \<and> is_Timeout e) \<longrightarrow>
         fetch_live_rate g fl f t = Inl (RuntimeError (failure_message f t)))
   \<and> (\<forall>e. fetch_live_rate g fl f t = Inl e \<longrightarrow> \<not> is_Timeout e)"
proof (intro conjI allI impI ballI)
  fix c assume c: "c \<in> set (requests_issued g fl f t)"
  then show "fst c \<in> set (endpoint_urls (lower f))"
    using for_urls_requests_configured [of g fl "lower f" "lower t" "endpoint_urls (lower f)"]
    by (simp add: requests_issued_def fetch_run_fst)
  from c show "snd c = 5"
    using for_urls_timeouts [of g fl "lower f" "lower t" "endpoint_urls (lower f)"]
    by (simp add: requests_issued_def fetch_run_fst request_timeout_def)
next
  fix e assume "g (endpoint_urls (lower f) ! 0) 5 = Inl e \<and> is_Timeout e"
  then have "attempt_fails g fl (lower f) (lower t) (endpoint_urls (lower f) ! 0)"
    using timeout_attempt_fails [of g "endpoint_urls (lower f) ! 0" e fl "lower f" "lower t"]
    by (simp add: request_timeout_def)
  then have "attempt_fails g fl (lower f) (lower t)
      (''https://cdn.jsdelivr.net/npm/@fawazahmed0/currency-api@latest/v1/currencies/'' @ lower f @ ''.json'')"
    by (simp add: endpoint_urls_def)
  from for_urls_fail_step [OF this]
  show "requests_issued g fl f t
           = [(endpoint_urls (lower f) ! 0, 5), (endpoint_urls (lower f) ! 1, 5)]"
    unfolding requests_issued_def fetch_run_fst endpoint_urls_def
    by (simp add: for_urls_single_trace request_timeout_def del: for_urls.simps)
next
  fix m u
  assume "fetch_live_rate g fl f t = Inl (RuntimeError m)"
    and "u \<in> set (endpoint_urls (lower f))"
  then show "attempt_fails g fl (lower f) (lower t) u"
    using fetch_Inl_cases [of g fl f t "RuntimeError m"] by simp
next
  assume a: "\<forall>u\<in>set (endpoint_urls (lower f)). \<exists>e. g u 5 = Inl e \<and> is_Timeout e"
  have "\<forall>u\<in>set (endpoint_urls (lower f)). attempt_fails g fl (lower f) (lower t) u"
  proof
    fix u assume "u \<in> set (endpoint_urls (lower f))"
    with a obtain e where "g u request_timeout = Inl e" "is_Timeout e"
      by (auto simp: request_timeout_def)
    then show "attempt_fails g fl (lower f) (lower t) u" by (rule timeout_attempt_fails)
  qed
  from fetch_all_fail [OF this]
  show "fetch_live_rate g fl f t = Inl (RuntimeError (failure_message f t))"
    by (simp add: fetch_live_rate_def)
next
  fix e assume "fetch_live_rate g fl f t = Inl e"
  from fetch_Inl_cases [OF this] show "\<not> is_Timeout e"
    using is_Timeout_is_Exception by auto
qed

text \<open>
  C8: for fixed endpoint responses, two calls whose currency arguments are letter-casings
  of one another issue the same requests and return the same rate; they fail together,
  each with the failure message built from its own arguments as given.
\<close>

theorem fetch_live_rate_case_insensitive:
  assumes "same_up_to_case f1 f2" and "same_up_to_case t1 t2"
  shows "requests_issued g fl f1 t1 = requests_issued g fl f2 t2
       \<and> (\<forall>r. fetch_live_rate g fl f1 t1 = Inr r \<longleftrightarrow> fetch_live_rate g fl f2 t2 = Inr r)
       \<and> (fetch_live_rate g fl f1 t1 = Inl (RuntimeError (failure_message f1 t1)) \<longleftrightarrow>
          fetch_live_rate g fl f2 t2 = Inl (RuntimeError (failure_message f2 t2)))
       \<and> (\<forall>e. \<not> is_Exception e \<longrightarrow>
            (fetch_live_rate g fl f1 t1 = Inl e \<longleftrightarrow> fetch_live_rate g fl f2 t2 = Inl e))"
proof -
  from assms have l: "lower f1 = lower f2" "lower t1 = lower t2"
    by (simp_all add: same_up_to_case_lower)
  obtain reqs out where fu: "for_urls g fl (lower f2) (lower t2) (endpoint_urls (lower f2)) = (reqs, out)"
    by (cases "for_urls g fl (lower f2) (lower t2) (endpoint_urls (lower f2))")
  show ?thesis
  proof (cases out)
    case (Inl e)
    with fu have "\<not> is_Exception e"
      using for_urls_Inl [of g fl "lower f2" "lower t2" "endpoint_urls (lower f2)" e] by simp
    with Inl fu l show ?thesis
      by (auto simp: requests_issued_def fetch_live_rate_def fetch_live_rate_run_def Let_def)
  next
    case (Inr opt)
    with fu l show ?thesis
      by (cases opt) (auto simp: requests_issued_def fetch_live_rate_def fetch_live_rate_run_def Let_def)
  qed
qed

lemma lower_samples:
  "lower ''USD'' = ''usd''" "lower ''usd'' = ''usd''" "lower ''Eur'' = ''eur''"
  "lower ''EUR'' = ''eur''" "lower ''gbp'' = ''gbp''"
  by code_simp+

lemma sample_attempts:
  "endpoint_attempt sample_get sample_py_float ''usd'' ''eur''
     ''https://cdn.jsdelivr.net/npm/@fawazahmed0/currency-api@latest/v1/currencies/usd.json''
   = Inl (OtherException ''ReadTimeout'' ''Read timed out. (read timeout=5)'')"
  "endpoint_attempt sample_get sample_py_float ''usd'' ''eur''
     ''https://latest.currency-api.pages.dev/v1/currencies/usd.json'' = Inr (Some 0.92)"
  "endpoint_attempt sample_get sample_py_float ''usd'' ''gbp''
     ''https://cdn.jsdelivr.net/npm/@fawazahmed0/currency-api@latest/v1/currencies/usd.json''
   = Inl (OtherException ''ReadTimeout'' ''Read timed out. (read timeout=5)'')"
  "endpoint_attempt sample_get sample_py_float ''usd'' ''gbp''
     ''https://latest.currency-api.pages.dev/v1/currencies/usd.json'' = Inr None"
  "endpoint_attempt sample_get sample_py_float ''eur'' ''usd''
     ''https://cdn.jsdelivr.net/npm/@fawazahmed0/currency-api@latest/v1/currencies/eur.json''
   = Inl (BaseOnly ''KeyboardInterrupt'' [])"
  "endpoint_attempt sample_get sample_py_float ''eur'' ''usd''
     ''https://latest.currency-api.pages.dev/v1/currencies/eur.json'' = Inr (Some 1.08)"
  by (simp_all add: endpoint_attempt_def sample_get_def request_timeout_def)

lemma sample_runs:
  "fetch_live_rate_run sample_get sample_py_float ''USD'' ''Eur'' =
     ([(''https://cdn.jsdelivr.net/npm/@fawazahmed0/currency-api@latest/v1/currencies/usd.json'', 5),
       (''https://latest.currency-api.pages.dev/v1/currencies/usd.json'', 5)], Inr 0.92)"
  "fetch_live_rate_run sample_get sample_py_float ''usd'' ''EUR'' =
     ([(''https://cdn.jsdelivr.net/npm/@fawazahmed0/currency-api@latest/v1/currencies/usd.json'', 5),
       (''https://latest.currency-api.pages.dev/v1/currencies/usd.json'', 5)], Inr 0.92)"
  "fetch_live_rate_run sample_get sample_py_float ''USD'' ''gbp'' =
     ([(''https://cdn.jsdelivr.net/npm/@fawazahmed0/currency-api@latest/v1/currencies/usd.json'', 5),
       (''https://latest.currency-api.pages.dev/v1/currencies/usd.json'', 5)],
      Inl (RuntimeError ''Failed to fetch exchange rate from USD to gbp''))"
  "fetch_live_rate_run sample_get sample_py_float ''EUR'' ''usd'' =
     ([(''https://cdn.jsdelivr.net/npm/@fawazahmed0/currency-api@latest/v1/currencies/eur.json'', 5)],
      Inl (BaseOnly ''KeyboardInterrupt'' []))"
  by (simp_all add: fetch_live_rate_run_def lower_samples endpoint_urls_def sample_attempts
        request_timeout_def failure_message_def)



theorem fetch_live_rate_timeouts_witness:
  "requests_issued sample_get sample_py_float ''USD'' ''Eur''
     = [(''https://cdn.jsdelivr.net/npm/@fawazahmed0/currency-api@latest/v1/currencies/usd.json'', 5),
        (''https://latest.currency-api.pages.dev/v1/currencies/usd.json'', 5)]
   \<and> fetch_live_rate sample_get sample_py_float ''USD'' ''Eur'' = Inr 0.92"
proof -
  have h: "sample_get (endpoint_urls (lower ''USD'') ! 0) 5
        = Inl (OtherException ''ReadTimeout'' ''Read timed out. (read timeout=5)'')
      \<and> is_Timeout (OtherException ''ReadTimeout'' ''Read timed out. (read timeout=5)'')"
    by (simp add: lower_samples endpoint_urls_def sample_get_def)
  note a = fetch_live_rate_timeouts [of sample_get sample_py_float "''USD''" "''Eur''",
      THEN conjunct2, THEN conjunct1, THEN spec, THEN mp, OF h]
  from a have "requests_issued sample_get sample_py_float ''USD'' ''Eur''
     = [(''https://cdn.jsdelivr.net/npm/@fawazahmed0/currency-api@latest/v1/currencies/usd.json'', 5),
        (''https://latest.currency-api.pages.dev/v1/currencies/usd.json'', 5)]"
    by (simp add: lower_samples endpoint_urls_def)
  moreover have "fetch_live_rate sample_get sample_py_float ''USD'' ''Eur'' = Inr 0.92"
    by (simp add: fetch_live_rate_def sample_runs)
  ultimately show ?thesis by simp
qed

theorem fetch_live_rate_case_insensitive_witness:
  "same_up_to_case ''USD'' ''usd'' \<and> same_up_to_case ''Eur'' ''EUR''
   \<and> requests_issued sample_get sample_py_float ''USD'' ''Eur''
       = requests_issued sample_get sample_py_float ''usd'' ''EUR''
   \<and> fetch_live_rate sample_get sample_py_float ''usd'' ''EUR'' = Inr 0.92"
proof -
  have c1: "same_up_to_case ''USD'' ''usd''" by code_simp
  have c2: "same_up_to_case ''Eur'' ''EUR''" by code_simp
  note a = fetch_live_rate_case_insensitive [OF c1 c2, of sample_get sample_py_float]
  have r: "fetch_live_rate sample_get sample_py_float ''USD'' ''Eur'' = Inr 0.92"
    by (simp add: fetch_live_rate_def sample_runs)
  from a r have "fetch_live_rate sample_get sample_py_float ''usd'' ''EUR'' = Inr 0.92"
    by blast
  with a c1 c2 show ?thesis by blast
qed

subsection \<open>calculate\<close>










subsection \<open>get\_humidity\<close>

text \<open>
  C9: for every city (and every state of the generator), \<open>get_humidity\<close> returns an
  integer between 30 and 90 inclusive, hence strictly between 0 and 100, given that
  \<^verbatim>\<open>random.randint\<close> keeps its contract.
\<close>

theorem get_humidity_range:
  assumes "randint_contract randint"
  shows "30 \<le> fst (get_humidity randint city s) \<and> fst (get_humidity randint city s) \<le> 90
       \<and> 0 < fst (get_humidity randint city s) \<and> fst (get_humidity randint city s) < 100"
proof -
  have "(30::int) \<le> 90" by simp
  with assms have "30 \<le> fst (randint 30 90 s) \<and> fst (randint 30 90 s) \<le> 90"
    unfolding randint_contract_def by blast
  then show ?thesis by (simp add: get_humidity_def)
qed

theorem get_humidity_range_witness:
  "randint_contract sample_randint
   \<and> fst (get_humidity sample_randint ''Paris'' 75) = 44
   \<and> 30 \<le> fst (get_humidity sample_randint ''Paris'' 75)
   \<and> fst (get_humidity sample_randint ''Paris'' 75) \<le> 90"
proof -
  have c: "randint_contract sample_randint"
    unfolding randint_contract_def sample_randint_def
  proof (intro allI impI)
    fix a b :: int and s :: nat
    assume "a \<le> b"
    then have p: "0 < b - a + 1" by simp
    have "0 \<le> int s mod (b - a + 1)" using p by (rule pos_mod_sign)
    moreover have "int s mod (b - a + 1) < b - a + 1" using p by (rule pos_mod_bound)
    ultimately show "a \<le> fst (a + int s mod (b - a + 1), Suc s)
        \<and> fst (a + int s mod (b - a + 1), Suc s) \<le> b"
      unfolding fst_conv by linarith
  qed
  have v: "fst (get_humidity sample_randint ''Paris'' 75) = 44"
    by (simp add: get_humidity_def sample_randint_def)
  from c v show ?thesis
    using get_humidity_range [OF c, of "''Paris''" 75] by simp
qed

subsection \<open>Agents and main programs\<close>







lemma strip_samples:
  "strip ''  hello '' = ''hello''" "strip '' EXIT  '' = ''EXIT''" "strip ''crash'' = ''crash''"
  "strip ''interrupt'' = ''interrupt''" "strip ''   '' = []" "strip ''Is it cold in Oslo?'' = ''Is it cold in Oslo?''"
  by code_simp+

lemma lower_samples2:
  "lower ''hello'' = ''hello''" "lower ''EXIT'' = ''exit''" "lower ''crash'' = ''crash''"
  "lower ''interrupt'' = ''interrupt''"
  by code_simp+


lemma lower_exit: "lower ''exit'' = ''exit''"
  by code_simp

lemma lower_case_variant: "list_all2 case_variant x (map lower_char x)"
  by (induction x) (simp_all add: case_variant_def)

lemma is_exit_iff: "is_exit line \<longleftrightarrow> same_up_to_case (strip line) ''exit''"
proof
  assume "is_exit line"
  then have "map lower_char (strip line) = ''exit''" by (simp add: is_exit_def lower_def)
  with lower_case_variant [of "strip line"] show "same_up_to_case (strip line) ''exit''"
    by (simp add: same_up_to_case_def)
next
  assume "same_up_to_case (strip line) ''exit''"
  then have "lower (strip line) = lower ''exit''" by (rule same_up_to_case_lower)
  then show "is_exit line" by (simp add: is_exit_def lower_exit)
qed

lemma search_loop_input_raises:
  "search_loop run st pr s (Inl e # rest) = ([], Some e)"
  by simp

lemma search_loop_exit:
  "is_exit line \<Longrightarrow> pr s PrintGoodbye = None \<Longrightarrow>
   search_loop run st pr s (Inr line # rest) = ([PrintGoodbye], None)"
  by (simp add: is_exit_def)

lemma search_loop_exit_unprinted:
  "is_exit line \<Longrightarrow> pr s PrintGoodbye = Some e \<Longrightarrow>
   search_loop run st pr s (Inr line # rest) = ([], Some e)"
  by (simp add: is_exit_def)

lemma search_loop_continue:
  "\<not> is_exit line \<Longrightarrow> search_turn run st pr s (strip line) = ((evs, None), s') \<Longrightarrow>
   search_loop run st pr s (Inr line # rest) =
     (evs @ fst (search_loop run st pr s' rest), snd (search_loop run st pr s' rest))"
  by (simp add: is_exit_def split: prod.splits)

lemma search_loop_stop:
  "\<not> is_exit line \<Longrightarrow> search_turn run st pr s (strip line) = ((evs, Some e), s') \<Longrightarrow>
   search_loop run st pr s (Inr line # rest) = (evs, Some e)"
  by (simp add: is_exit_def)

lemma search_turn_answer:
  "run agent s q = (Inr answer, s') \<Longrightarrow> pr s' (PrintAnswer answer) = None \<Longrightarrow>
   search_turn run st pr s q = (([RunCalled agent q, PrintAnswer answer], None), s')"
  by (simp add: search_turn_def)

lemma search_turn_answer_unprinted:
  "run agent s q = (Inr answer, s') \<Longrightarrow> pr s' (PrintAnswer answer) = Some e \<Longrightarrow>
   search_turn run st pr s q =
     ((RunCalled agent q # fst (search_handler st pr s' e), snd (search_handler st pr s' e)), s')"
  by (simp add: search_turn_def split: prod.splits)

lemma search_turn_raised:
  "run agent s q = (Inl e, s') \<Longrightarrow>
   search_turn run st pr s q =
     ((RunCalled agent q # fst (search_handler st pr s' e), snd (search_handler st pr s' e)), s')"
  by (simp add: search_turn_def split: prod.splits)

lemma search_handler_prints:
  "is_Exception e \<Longrightarrow> st e = Inr m \<Longrightarrow> pr s (PrintError m) = None \<Longrightarrow>
   search_handler st pr s e = ([PrintError m], None)"
  by (simp add: search_handler_def)

lemma search_handler_uncaught:
  "\<not> is_Exception e \<Longrightarrow> search_handler st pr s e = ([], Some e)"
  by (simp add: search_handler_def)

lemma search_handler_str_raises:
  "is_Exception e \<Longrightarrow> st e = Inl x \<Longrightarrow> search_handler st pr s e = ([], Some x)"
  by (simp add: search_handler_def)

lemma search_handler_unprinted:
  "is_Exception e \<Longrightarrow> st e = Inr m \<Longrightarrow> pr s (PrintError m) = Some x \<Longrightarrow>
   search_handler st pr s e = ([], Some x)"
  by (simp add: search_handler_def)

lemma search_loop_normal_end:
  "snd (search_loop run st pr s stdin) = None \<Longrightarrow> \<exists>line. Inr line \<in> set stdin \<and> is_exit line"
proof (induction stdin arbitrary: s)
  case Nil
  then show ?case by (simp add: EOFError_def)
next
  case (Cons item rest)
  show ?case
  proof (cases item)
    case (Inl e)
    with Cons.prems show ?thesis by simp
  next
    case (Inr line)
    show ?thesis
    proof (cases "is_exit line")
      case True
      with Inr show ?thesis by auto
    next
      case False
      obtain evs r s' where t: "search_turn run st pr s (strip line) = ((evs, r), s')"
        by (metis prod.exhaust)
      show ?thesis
      proof (cases r)
        case None
        with t False Inr Cons.prems have "snd (search_loop run st pr s' rest) = None"
          by (simp add: search_loop_continue del: search_loop.simps)
        from Cons.IH [OF this] show ?thesis by auto
      next
        case (Some e)
        with t False Inr Cons.prems show ?thesis
          by (simp add: search_loop_stop del: search_loop.simps)
      qed
    qed
  qed
qed

lemma benign_turn:
  assumes "benign run st pr"
  shows "\<exists>ev s'. search_turn run st pr s q = (([RunCalled agent q, ev], None), s')
           \<and> \<not> is_RunCalled ev"
proof -
  obtain out s' where r: "run agent s q = (out, s')" by (cases "run agent s q")
  from assms have p: "\<And>s ev. pr s ev = None" by (simp add: benign_def)
  show ?thesis
  proof (cases out)
    case (Inr answer)
    with r p have "search_turn run st pr s q = (([RunCalled agent q, PrintAnswer answer], None), s')"
      by (simp add: search_turn_answer)
    moreover have "\<not> is_RunCalled (PrintAnswer answer)" by simp
    ultimately show ?thesis by blast
  next
    case (Inl e)
    with r assms have ex: "is_Exception e" unfolding benign_def by blast
    with assms obtain m where "st e = Inr m" unfolding benign_def by blast
    with ex p have "search_handler st pr s' e = ([PrintError m], None)"
      by (simp add: search_handler_prints)
    with Inl r have "search_turn run st pr s q = (([RunCalled agent q, PrintError m], None), s')"
      by (simp add: search_turn_raised)
    moreover have "\<not> is_RunCalled (PrintError m)" by simp
    ultimately show ?thesis by blast
  qed
qed

lemma search_loop_eof:
  assumes "benign run st pr"
  shows "\<forall>line\<in>set lines. \<not> is_exit line \<Longrightarrow>
     snd (search_loop run st pr s (map Inr lines)) = Some EOFError
     \<and> length (filter is_RunCalled (fst (search_loop run st pr s (map Inr lines)))) = length lines"
proof (induction lines arbitrary: s)
  case Nil
  then show ?case by simp
next
  case (Cons line rest)
  then have ne: "\<not> is_exit line" and rest: "\<forall>l\<in>set rest. \<not> is_exit l" by simp_all
  from benign_turn [OF assms, of s "strip line"] obtain ev s' where
    t: "search_turn run st pr s (strip line) = (([RunCalled agent (strip line), ev], None), s')"
    and nr: "\<not> is_RunCalled ev"
    by blast
  from nr t ne Cons.IH [OF rest, of s'] show ?case
    by (simp add: search_loop_continue del: search_loop.simps)
qed

lemma search_main_printed:
  "pr s PrintBanner = None \<Longrightarrow>
   search_main run st pr s stdin
     = (PrintBanner # fst (search_loop run st pr s stdin), snd (search_loop run st pr s stdin))"
  by (simp add: search_main_def split: prod.splits)

lemma search_main_normal_end:
  "snd (search_main run st pr s stdin) = None \<Longrightarrow> snd (search_loop run st pr s stdin) = None"
  by (cases "pr s PrintBanner") (auto simp: search_main_def split: prod.splits)

lemma sample_turns:
  "search_turn sample_run plain_str utf8_print s ''hello''
     = (([RunCalled agent ''hello'', PrintAnswer ''answer to hello''], None), Suc s)"
  "search_turn sample_run plain_str utf8_print s ''crash''
     = (([RunCalled agent ''crash'', PrintError ''Could not parse LLM output''], None), Suc s)"
  "search_turn sample_run plain_str utf8_print s ''interrupt''
     = (([RunCalled agent ''interrupt''], Some (BaseOnly ''KeyboardInterrupt'' [])), Suc s)"
  "search_turn sample_run plain_str ascii_print s ''hello''
     = (([RunCalled agent ''hello''], Some UnicodeEncodeError), Suc s)"
  "search_turn quiet_run plain_str utf8_print s ''hello''
     = (([RunCalled agent ''hello'', PrintAnswer ''answer to hello''], None), Suc s)"
  by (simp_all add: search_turn_def search_handler_def sample_run_def quiet_run_def
        plain_str_def utf8_print_def UnicodeEncodeError_def)

lemma sample_search_runs:
  "search_loop sample_run plain_str utf8_print 0 [Inr ''  hello '']
     = ([RunCalled agent ''hello'', PrintAnswer ''answer to hello''], Some EOFError)"
  "search_loop sample_run plain_str utf8_print 0 [Inr ''interrupt'', Inr '' EXIT  '']
     = ([RunCalled agent ''interrupt''], Some (BaseOnly ''KeyboardInterrupt'' []))"
  "search_loop sample_run plain_str ascii_print 0 [Inr ''  hello '', Inr '' EXIT  '']
     = ([RunCalled agent ''hello''], Some UnicodeEncodeError)"
  "search_loop sample_run plain_str utf8_print 0 [Inl KeyboardInterrupt, Inr '' EXIT  '']
     = ([], Some KeyboardInterrupt)"
  "search_loop sample_run plain_str utf8_print 0
       [Inr ''  hello '', Inr ''crash'', Inr '' EXIT  '', Inr ''more'']
     = ([RunCalled agent ''hello'', PrintAnswer ''answer to hello'',
         RunCalled agent ''crash'', PrintError ''Could not parse LLM output'',
         PrintGoodbye], None)"
  by (simp_all add: strip_samples lower_samples2 sample_turns utf8_print_def Let_def)

text \<open>
  C6, as stated, fails. With no "exit" line the loop ends with an uncaught EOFError when
  the input ends. With an "exit" line still to come it ends when \<^verbatim>\<open>agent.run\<close>
  raises an exception outside \<^verbatim>\<open>Exception\<close> (no error message is printed), when
  the output cannot encode the answer line (the UnicodeEncodeError is caught, printing
  the error line raises it again), and when \<^verbatim>\<open>input()\<close> is interrupted.
\<close>

theorem search_cli_ends_without_exit:
  "\<not> is_exit ''  hello ''
   \<and> search_main sample_run plain_str utf8_print 0 [Inr ''  hello '']
       = ([PrintBanner, RunCalled agent ''hello'', PrintAnswer ''answer to hello''], Some EOFError)
   \<and> \<not> is_exit ''interrupt''
   \<and> search_main sample_run plain_str utf8_print 0 [Inr ''interrupt'', Inr '' EXIT  '']
       = ([PrintBanner, RunCalled agent ''interrupt''], Some (BaseOnly ''KeyboardInterrupt'' []))
   \<and> search_main sample_run plain_str ascii_print 0 [Inr ''  hello '', Inr '' EXIT  '']
       = ([PrintBanner, RunCalled agent ''hello''], Some UnicodeEncodeError)
   \<and> search_main sample_run plain_str utf8_print 0 [Inl KeyboardInterrupt, Inr '' EXIT  '']
       = ([PrintBanner], Some KeyboardInterrupt)"
  by (simp add: is_exit_def search_main_def sample_search_runs strip_samples lower_samples2
        utf8_print_def del: search_loop.simps)

text \<open>
  C6, amended. A line equal to "exit" after stripping, up to letter case, makes the loop
  print the farewell and end. Any other line is a turn: \<^verbatim>\<open>agent.run\<close> is called on
  the stripped line; its answer is printed; an exception below \<^verbatim>\<open>Exception\<close>
  raised by the call, or by printing the answer, has its text printed as the error
  message; after either print the loop goes on with the next line. A turn ends the
  program when the exception is outside \<^verbatim>\<open>Exception\<close>, or when forming or printing
  the error message raises; so does an exception raised by \<^verbatim>\<open>input()\<close>, and one
  raised by printing the farewell. The program ends normally only if some line read was
  "exit"; in benign surroundings and without such a line it calls \<^verbatim>\<open>agent.run\<close>
  once per line and ends with EOFError.
\<close>

theorem search_cli_behaviour:
  "(is_exit line \<longleftrightarrow> same_up_to_case (strip line) ''exit'')
   \<and> (is_exit line \<and> pr s PrintGoodbye = None \<longrightarrow>
         search_loop run st pr s (Inr line # rest) = ([PrintGoodbye], None))
   \<and> (\<forall>evs s'. \<not> is_exit line \<and> search_turn run st pr s (strip line) = ((evs, None), s') \<longrightarrow>
         search_loop run st pr s (Inr line # rest) =
           (evs @ fst (search_loop run st pr s' rest), snd (search_loop run st pr s' rest)))
   \<and> (\<forall>evs e s'. \<not> is_exit line \<and> search_turn run st pr s (strip line) = ((evs, Some e), s') \<longrightarrow>
         search_loop run st pr s (Inr line # rest) = (evs, Some e))
   \<and> (\<forall>answer s'. run agent s q = (Inr answer, s') \<and> pr s' (PrintAnswer answer) = None \<longrightarrow>
         search_turn run st pr s q = (([RunCalled agent q, PrintAnswer answer], None), s'))
   \<and> (\<forall>e m s'. run agent s q = (Inl e, s') \<and> is_Exception e \<and> st e = Inr m
           \<and> pr s' (PrintError m) = None \<longrightarrow>
         search_turn run st pr s q = (([RunCalled agent q, PrintError m], None), s'))
   \<and> (\<forall>e s'. run agent s q = (Inl e, s') \<and> \<not> is_Exception e \<longrightarrow>
         search_turn run st pr s q = (([RunCalled agent q], Some e), s'))
   \<and> (\<forall>e x s'. run agent s q = (Inl e, s') \<and> is_Exception e
           \<and> (st e = Inl x \<or> (\<exists>m. st e = Inr m \<and> pr s' (PrintError m) = Some x)) \<longrightarrow>
         search_turn run st pr s q = (([RunCalled agent q], Some x), s'))
   \<and> (\<forall>answer e s'. run agent s q = (Inr answer, s') \<and> pr s' (PrintAnswer answer) = Some e \<longrightarrow>
         search_turn run st pr s q =
           ((RunCalled agent q # fst (search_handler st pr s' e),
             snd (search_handler st pr s' e)), s'))
   \<and> (\<forall>e. search_loop run st pr s (Inl e # rest) = ([], Some e))
   \<and> (\<forall>e. is_exit line \<and> pr s PrintGoodbye = Some e \<longrightarrow>
         search_loop run st pr s (Inr line # rest) = ([], Some e))
   \<and> (snd (search_main run st pr s stdin) = None \<longrightarrow>
         (\<exists>l. Inr l \<in> set stdin \<and> is_exit l))
   \<and> (benign run st pr \<and> (\<forall>l\<in>set lines. \<not> is_exit l) \<longrightarrow>
         snd (search_main run st pr s (map Inr lines)) = Some EOFError
         \<and> length (filter is_RunCalled (fst (search_main run st pr s (map Inr lines))))
             = length lines)"
proof (intro conjI allI impI)
  show "is_exit line \<longleftrightarrow> same_up_to_case (strip line) ''exit''" by (rule is_exit_iff)
next
  assume "is_exit line \<and> pr s PrintGoodbye = None"
  then show "search_loop run st pr s (Inr line # rest) = ([PrintGoodbye], None)"
    using search_loop_exit [of line pr s run st rest] by blast
next
  fix evs s'
  assume "\<not> is_exit line \<and> search_turn run st pr s (strip line) = ((evs, None), s')"
  then show "search_loop run st pr s (Inr line # rest) =
           (evs @ fst (search_loop run st pr s' rest), snd (search_loop run st pr s' rest))"
    using search_loop_continue [of line run st pr s evs s' rest] by blast
next
  fix evs e s'
  assume "\<not> is_exit line \<and> search_turn run st pr s (strip line) = ((evs, Some e), s')"
  then show "search_loop run st pr s (Inr line # rest) = (evs, Some e)"
    using search_loop_stop [of line run st pr s evs e s' rest] by blast
next
  fix answer s'
  assume "run agent s q = (Inr answer, s') \<and> pr s' (PrintAnswer answer) = None"
  then show "search_turn run st pr s q = (([RunCalled agent q, PrintAnswer answer], None), s')"
    using search_turn_answer [of run s q answer s' pr st] by blast
next
  fix e m s'
  assume a: "run agent s q = (Inl e, s') \<and> is_Exception e \<and> st e = Inr m
           \<and> pr s' (PrintError m) = None"
  then have "search_handler st pr s' e = ([PrintError m], None)"
    by (simp add: search_handler_prints)
  with a show "search_turn run st pr s q = (([RunCalled agent q, PrintError m], None), s')"
    by (simp add: search_turn_raised)
next
  fix e s'
  assume a: "run agent s q = (Inl e, s') \<and> \<not> is_Exception e"
  then have "search_handler st pr s' e = ([], Some e)"
    by (simp add: search_handler_uncaught)
  with a show "search_turn run st pr s q = (([RunCalled agent q], Some e), s')"
    by (simp add: search_turn_raised)
next
  fix e x s'
  assume a: "run agent s q = (Inl e, s') \<and> is_Exception e
           \<and> (st e = Inl x \<or> (\<exists>m. st e = Inr m \<and> pr s' (PrintError m) = Some x))"
  then have "search_handler st pr s' e = ([], Some x)"
    by (auto simp: search_handler_str_raises search_handler_unprinted)
  with a show "search_turn run st pr s q = (([RunCalled agent q], Some x), s')"
    by (simp add: search_turn_raised)
next
  fix answer e s'
  assume "run agent s q = (Inr answer, s') \<and> pr s' (PrintAnswer answer) = Some e"
  then show "search_turn run st pr s q =
           ((RunCalled agent q # fst (search_handler st pr s' e),
             snd (search_handler st pr s' e)), s')"
    using search_turn_answer_unprinted [of run s q answer s' pr e st] by blast
next
  fix e show "search_loop run st pr s (Inl e # rest) = ([], Some e)" by simp
next
  fix e assume "is_exit line \<and> pr s PrintGoodbye = Some e"
  then show "search_loop run st pr s (Inr line # rest) = ([], Some e)"
    using search_loop_exit_unprinted [of line pr s e run st rest] by blast
next
  assume "snd (search_main run st pr s stdin) = None"
  then have "snd (search_loop run st pr s stdin) = None" by (rule search_main_normal_end)
  then show "\<exists>l. Inr l \<in> set stdin \<and> is_exit l" by (rule search_loop_normal_end)
next
  assume a: "benign run st pr \<and> (\<forall>l\<in>set lines. \<not> is_exit l)"
  then have b: "benign run st pr" and l: "\<forall>l\<in>set lines. \<not> is_exit l" by blast+
  from b have p: "pr s PrintBanner = None" by (simp add: benign_def)
  from search_loop_eof [OF b l, of s]
  show "snd (search_main run st pr s (map Inr lines)) = Some EOFError"
    and "length (filter is_RunCalled (fst (search_main run st pr s (map Inr lines)))) = length lines"
    by (simp_all add: search_main_printed [where pr = pr and s = s, OF p])
qed

theorem search_cli_behaviour_witness:
  "search_loop sample_run plain_str utf8_print 2 [Inr '' EXIT  '', Inr ''more'']
     = ([PrintGoodbye], None)
   \<and> search_turn sample_run plain_str utf8_print 1 ''crash''
       = (([RunCalled agent ''crash'', PrintError ''Could not parse LLM output''], None), 2)
   \<and> search_turn sample_run plain_str utf8_print 0 ''interrupt''
       = (([RunCalled agent ''interrupt''], Some KeyboardInterrupt), 1)
   \<and> snd (search_main quiet_run plain_str utf8_print 0 [Inr ''  hello '']) = Some EOFError"
proof -
  have x: "is_exit '' EXIT  '' \<and> utf8_print 2 PrintGoodbye = None"
    by (simp add: is_exit_def strip_samples lower_samples2 utf8_print_def)
  have c: "sample_run agent 1 ''crash''
        = (Inl (OtherException ''ValueError'' ''Could not parse LLM output''), 2)
      \<and> is_Exception (OtherException ''ValueError'' ''Could not parse LLM output'')
      \<and> plain_str (OtherException ''ValueError'' ''Could not parse LLM output'')
          = Inr ''Could not parse LLM output''
      \<and> utf8_print 2 (PrintError ''Could not parse LLM output'') = None"
    by (simp add: sample_run_def quiet_run_def plain_str_def utf8_print_def)
  have k: "sample_run agent 0 ''interrupt'' = (Inl KeyboardInterrupt, 1)
      \<and> \<not> is_Exception KeyboardInterrupt"
    by (simp add: sample_run_def KeyboardInterrupt_def)
  have n: "benign quiet_run plain_str utf8_print \<and> (\<forall>l\<in>set [''  hello '']. \<not> is_exit l)"
    by (auto simp: benign_def is_exit_def strip_samples lower_samples2 quiet_run_def
          plain_str_def utf8_print_def split: if_splits)
  note a = search_cli_behaviour [where line = "'' EXIT  ''" and pr = utf8_print and s = 2
      and run = sample_run and st = plain_str and rest = "[Inr ''more'']",
      THEN conjunct2, THEN conjunct1, THEN mp, OF x]
  note b = search_cli_behaviour [where run = sample_run and s = 1 and q = "''crash''"
      and st = plain_str and pr = utf8_print,
      THEN conjunct2, THEN conjunct2, THEN conjunct2, THEN conjunct2, THEN conjunct2,
      THEN conjunct1, rule_format, OF c]
  note d = search_cli_behaviour [where run = sample_run and s = 0 and q = "''interrupt''"
      and st = plain_str and pr = utf8_print,
      THEN conjunct2, THEN conjunct2, THEN conjunct2, THEN conjunct2, THEN conjunct2,
      THEN conjunct2, THEN conjunct1, rule_format, OF k]
  note e = search_cli_behaviour [where run = quiet_run and st = plain_str and pr = utf8_print
      and s = 0 and lines = "[''  hello '']",
      THEN conjunct2, THEN conjunct2, THEN conjunct2, THEN conjunct2, THEN conjunct2,
      THEN conjunct2, THEN conjunct2, THEN conjunct2, THEN conjunct2, THEN conjunct2,
      THEN conjunct2, THEN conjunct2, THEN mp, OF n]
  from a b d e show ?thesis by (simp del: search_loop.simps)
qed





subsection \<open>The reasoning loop\<close>

lemma reasoning_loop_turns_le: "fst (reasoning_loop backend parse registry n transcript) \<le> n"
proof (induction n arbitrary: transcript)
  case 0
  then show ?case by simp
next
  case (Suc n)
  show ?case
  proof (cases "backend transcript (describe registry)")
    case None
    then show ?thesis by simp
  next
    case (Some raw)
    show ?thesis
    proof (cases "parse raw")
      case (ToolCallRequest toolName args)
      with Some Suc.IH [of "transcript @ [ModelUtterance raw (Some (toolName, args)),
          ToolCall toolName args, ToolResult toolName (dispatch registry toolName args)]"]
      show ?thesis by (auto split: prod.splits)
    next
      case (FinalAnswer final)
      with Some show ?thesis by simp
    next
      case Malformed
      with Some show ?thesis by simp
    qed
  qed
qed

lemma reasoning_loop_exhausted:
  "is_StepBudgetExceeded (snd (snd (reasoning_loop backend parse registry n transcript))) \<Longrightarrow>
   fst (reasoning_loop backend parse registry n transcript) = n"
proof (induction n arbitrary: transcript)
  case 0
  then show ?case by simp
next
  case (Suc n)
  show ?case
  proof (cases "backend transcript (describe registry)")
    case None
    with Suc.prems show ?thesis by simp
  next
    case (Some raw)
    show ?thesis
    proof (cases "parse raw")
      case (ToolCallRequest toolName args)
      with Some Suc.prems Suc.IH [of "transcript @ [ModelUtterance raw (Some (toolName, args)),
          ToolCall toolName args, ToolResult toolName (dispatch registry toolName args)]"]
      show ?thesis by (auto split: prod.splits)
    next
      case (FinalAnswer final)
      with Some Suc.prems show ?thesis by simp
    next
      case Malformed
      with Some Suc.prems show ?thesis by simp
    qed
  qed
qed

lemma reasoning_loop_always_calls:
  assumes "\<forall>tr. \<exists>raw toolName args.
      backend tr (describe registry) = Some raw \<and> parse raw = ToolCallRequest toolName args"
  shows "fst (reasoning_loop backend parse registry n transcript) = n
       \<and> is_StepBudgetExceeded (snd (snd (reasoning_loop backend parse registry n transcript)))"
proof (induction n arbitrary: transcript)
  case 0
  then show ?case by simp
next
  case (Suc n)
  from assms obtain raw toolName args where
    c: "backend transcript (describe registry) = Some raw"
    and p: "parse raw = ToolCallRequest toolName args" by blast
  with Suc.IH [of "transcript @ [ModelUtterance raw (Some (toolName, args)),
      ToolCall toolName args, ToolResult toolName (dispatch registry toolName args)]"]
  show ?case by (auto split: prod.splits)
qed

lemma max_steps_of_create_agent: "max_steps_of (create_agent model_id api_base) = Some 10"
  by (simp add: max_steps_of_def create_agent_def)

text \<open>
  C1: the currency agent is constructed with a step budget of 10. A run of the reasoning
  loop makes at most \<open>maxSteps\<close> model turns, whatever the backend answers; when the
  backend requests a tool call at every turn, the run makes exactly \<open>maxSteps\<close> turns
  and fails with StepBudgetExceededError; and a run that fails with that error has made
  exactly \<open>maxSteps\<close> turns. The loop is a total function: it never runs forever.
\<close>

theorem step_budget:
  "max_steps_of (create_agent model_id api_base) = Some 10
   \<and> model_turns (AgentSession_run backend parse registry query maxSteps) \<le> maxSteps
   \<and> ((\<forall>tr. \<exists>raw toolName args.
          backend tr (describe registry) = Some raw \<and> parse raw = ToolCallRequest toolName args)
        \<longrightarrow> model_turns (AgentSession_run backend parse registry query maxSteps) = maxSteps
            \<and> is_StepBudgetExceeded
                 (run_result (AgentSession_run backend parse registry query maxSteps)))
   \<and> (is_StepBudgetExceeded (run_result (AgentSession_run backend parse registry query maxSteps))
        \<longrightarrow> model_turns (AgentSession_run backend parse registry query maxSteps) = maxSteps)"
proof (intro conjI impI)
  show "max_steps_of (create_agent model_id api_base) = Some 10"
    by (rule max_steps_of_create_agent)
  show "model_turns (AgentSession_run backend parse registry query maxSteps) \<le> maxSteps"
    unfolding model_turns_def AgentSession_run_def by (rule reasoning_loop_turns_le)
next
  assume a: "\<forall>tr. \<exists>raw toolName args.
          backend tr (describe registry) = Some raw \<and> parse raw = ToolCallRequest toolName args"
  from reasoning_loop_always_calls [where backend = backend and registry = registry
      and parse = parse and n = maxSteps and transcript = "[UserMessage query]", OF a]
  show "model_turns (AgentSession_run backend parse registry query maxSteps) = maxSteps"
    and "is_StepBudgetExceeded (run_result (AgentSession_run backend parse registry query maxSteps))"
    by (simp_all add: model_turns_def run_result_def AgentSession_run_def)
next
  assume "is_StepBudgetExceeded (run_result (AgentSession_run backend parse registry query maxSteps))"
  then show "model_turns (AgentSession_run backend parse registry query maxSteps) = maxSteps"
    unfolding model_turns_def run_result_def AgentSession_run_def
    by (rule reasoning_loop_exhausted)
qed

theorem step_budget_witness:
  "model_turns (AgentSession_run always_calls sample_parse sample_registry
      ''Convert 100 USD to EUR'' 10) = 10
   \<and> is_StepBudgetExceeded (run_result (AgentSession_run always_calls sample_parse sample_registry
      ''Convert 100 USD to EUR'' 10))"
proof -
  have h: "\<forall>tr. \<exists>raw toolName args.
      always_calls tr (describe sample_registry) = Some raw
      \<and> sample_parse raw = ToolCallRequest toolName args"
    by (simp add: always_calls_def sample_parse_def)
  from step_budget [of "''gpt-4o-mini''" None always_calls sample_parse sample_registry
      "''Convert 100 USD to EUR''" 10, THEN conjunct2, THEN conjunct2, THEN conjunct1, THEN mp, OF h]
  show ?thesis .
qed






end
